theory Spec2Isabelle
  imports Complex_Main
begin

section \<open>Python values shared by the three services\<close>

text \<open>
  The development embeds the resume parser (\<open>app/services/cv_parser.py\<close>), the job
  requirement parser (\<open>app/services/nlp_service.py\<close>) and the scoring engine
  (\<open>backup/app/services/cv_analyzer.py\<close>).

  A raised Python exception is a value: its class name and the text that \<open>str(e)\<close>
  gives. A function that may raise returns \<open>exn + 'a\<close>, with \<open>Inl\<close> for the raise.
  A Python float is modelled by the real number it holds. The scores of
  \<open>_analyze_skills_match\<close> and \<open>_analyze_experience_match\<close> are the exact values of the
  arithmetic expressions the source writes. Where a result shows the rounding of float
  arithmetic (the average of a batch), the float operations are parameters of the model.
\<close>

datatype exn = Exn (exn_class: string) (exn_msg: string)

definition ValueError :: "string \<Rightarrow> exn" where
  "ValueError msg = Exn ''ValueError'' msg"

definition AttributeError :: "string \<Rightarrow> exn" where
  "AttributeError msg = Exn ''AttributeError'' msg"

subsection \<open>Characters\<close>

text \<open>
  Texts are strings of ASCII characters. The classes below are Python's
  \<open>str.isdigit\<close>, \<open>str.isalpha\<close>, \<open>str.isspace\<close> and the regular expression classes
  \<open>\d\<close>, \<open>\w\<close>, \<open>\s\<close> on that range; a character above 127 is in none of them.
\<close>

definition is_digit :: "char \<Rightarrow> bool" where
  "is_digit c = (48 \<le> (of_char c :: nat) \<and> (of_char c :: nat) \<le> 57)"

definition is_upper :: "char \<Rightarrow> bool" where
  "is_upper c = (65 \<le> (of_char c :: nat) \<and> (of_char c :: nat) \<le> 90)"

definition is_lower :: "char \<Rightarrow> bool" where
  "is_lower c = (97 \<le> (of_char c :: nat) \<and> (of_char c :: nat) \<le> 122)"

definition is_alpha :: "char \<Rightarrow> bool" where
  "is_alpha c = (is_upper c \<or> is_lower c)"

definition is_word :: "char \<Rightarrow> bool" where
  "is_word c = (is_alpha c \<or> is_digit c \<or> c = CHR ''_'')"

definition is_space :: "char \<Rightarrow> bool" where
  "is_space c = ((of_char c :: nat) \<in> {9, 10, 11, 12, 13, 28, 29, 30, 31, 32})"

definition chr_lower :: "char \<Rightarrow> char" where
  "chr_lower c = (if is_upper c then char_of ((of_char c :: nat) + 32) else c)"

definition chr_upper :: "char \<Rightarrow> char" where
  "chr_upper c = (if is_lower c then char_of ((of_char c :: nat) - 32) else c)"

definition newline :: char where
  "newline = CHR 0x0A"



subsection \<open>String methods\<close>

definition py_lower :: "string \<Rightarrow> string" where
  "py_lower s = map chr_lower s"

text \<open>\<open>s.strip()\<close>: white space removed at both ends.\<close>

definition py_strip :: "string \<Rightarrow> string" where
  "py_strip s = rev (dropWhile is_space (rev (dropWhile is_space s)))"

text \<open>\<open>s.split(sep)\<close> for a separator of one character: empty pieces are kept.\<close>

fun split_when :: "(char \<Rightarrow> bool) \<Rightarrow> string \<Rightarrow> string list" where
  "split_when p [] = [[]]"
| "split_when p (x # xs) =
     (if p x then [] # split_when p xs
      else (case split_when p xs of [] \<Rightarrow> [[x]] | w # ws \<Rightarrow> (x # w) # ws))"

definition py_split_on :: "char \<Rightarrow> string \<Rightarrow> string list" where
  "py_split_on c s = split_when (\<lambda>x. x = c) s"

text \<open>\<open>s.split()\<close>: the maximal runs of characters that are not white space.\<close>

definition py_split :: "string \<Rightarrow> string list" where
  "py_split s = filter (\<lambda>w. w \<noteq> []) (split_when is_space s)"


fun py_join :: "string \<Rightarrow> string list \<Rightarrow> string" where
  "py_join sep [] = []"
| "py_join sep [x] = x"
| "py_join sep (x # y # ys) = x @ sep @ py_join sep (y # ys)"

definition py_startswith :: "string \<Rightarrow> string \<Rightarrow> bool" where
  "py_startswith s p = (take (length p) s = p)"

text \<open>\<open>needle in hay\<close> on strings: \<open>needle\<close> occurs as a contiguous piece of \<open>hay\<close>.\<close>

fun py_in :: "string \<Rightarrow> string \<Rightarrow> bool" where
  "py_in needle [] = (needle = [])"
| "py_in needle (x # xs) = (py_startswith (x # xs) needle \<or> py_in needle xs)"

text \<open>
  \<open>s.title()\<close>: the first letter of every run of letters in upper case, the other
  letters of the run in lower case.
\<close>

fun title_aux :: "bool \<Rightarrow> string \<Rightarrow> string" where
  "title_aux prev [] = []"
| "title_aux prev (c # cs) =
     (if is_alpha c then (if prev then chr_lower c else chr_upper c) # title_aux True cs
      else c # title_aux False cs)"

definition py_title :: "string \<Rightarrow> string" where
  "py_title s = title_aux False s"


text \<open>\<open>int(s)\<close> on a string of decimal digits.\<close>

definition digit_val :: "char \<Rightarrow> nat" where
  "digit_val c = (of_char c :: nat) - 48"

definition int_of_digits :: "string \<Rightarrow> int" where
  "int_of_digits s = int (foldl (\<lambda>acc c. 10 * acc + digit_val c) 0 s)"

section \<open>Regular expressions, matched as Python's \<open>re\<close> module matches them\<close>

text \<open>
  A pattern of the source is written as a term of \<open>regex\<close>, constructor by constructor.
  The matcher lists the ways a pattern can match at a position in the order in which a
  backtracking matcher tries them (greedy repetition first, the left alternative first),
  so the head of the list is the match that \<open>re\<close> reports.

  A matching state is the text before the position (reversed), the text from the
  position on, and the groups captured so far (the latest capture of a group first).
\<close>

datatype cset = CChar char | CRange char char | CWord | CDigit | CSpace

datatype regex =
    Eps
  | Lit char
  | Dot
  | In "cset list"
  | NotIn "cset list"
  | Bnd
  | Eos
  | Cat regex regex
  | Alt regex regex
  | Opt regex
  | Star regex
  | Plus regex
  | Rep nat nat regex
  | Grp nat regex

fun cset_mem :: "char \<Rightarrow> cset \<Rightarrow> bool" where
  "cset_mem x (CChar c) = (x = c)"
| "cset_mem x (CRange a b) = ((of_char a :: nat) \<le> of_char x \<and> (of_char x :: nat) \<le> of_char b)"
| "cset_mem x CWord = is_word x"
| "cset_mem x CDigit = is_digit x"
| "cset_mem x CSpace = is_space x"

text \<open>The flag \<open>ic\<close> is \<open>re.IGNORECASE\<close>.\<close>

definition in_class :: "bool \<Rightarrow> cset list \<Rightarrow> char \<Rightarrow> bool" where
  "in_class ic cs x =
     (if ic then list_ex (cset_mem (chr_lower x)) cs \<or> list_ex (cset_mem (chr_upper x)) cs
      else list_ex (cset_mem x) cs)"

definition lit_eq :: "bool \<Rightarrow> char \<Rightarrow> char \<Rightarrow> bool" where
  "lit_eq ic c x = (if ic then chr_lower c = chr_lower x else c = x)"

type_synonym captures = "(nat \<times> string) list"

type_synonym mstate = "string \<times> string \<times> captures"

text \<open>\<open>\b\<close>: exactly one of the two neighbours of the position is a word character.\<close>

definition at_boundary :: "string \<Rightarrow> string \<Rightarrow> bool" where
  "at_boundary pre rest =
     ((case pre of [] \<Rightarrow> False | p # _ \<Rightarrow> is_word p) \<noteq>
      (case rest of [] \<Rightarrow> False | x # _ \<Rightarrow> is_word x))"

fun rx_size :: "regex \<Rightarrow> nat" where
  "rx_size (Cat r s) = Suc (rx_size r + rx_size s)"
| "rx_size (Alt r s) = Suc (rx_size r + rx_size s)"
| "rx_size (Opt r) = Suc (rx_size r)"
| "rx_size (Star r) = Suc (rx_size r)"
| "rx_size (Plus r) = Suc (Suc (rx_size r))"
| "rx_size (Rep lo hi r) = Suc (rx_size r + hi)"
| "rx_size (Grp k r) = Suc (rx_size r)"
| "rx_size _ = 0"

definition set_group :: "string \<Rightarrow> nat \<Rightarrow> mstate \<Rightarrow> mstate" where
  "set_group pre k st =
     (case st of (pre', rest', caps') \<Rightarrow>
        (pre', rest', (k, rev (take (length pre' - length pre) pre')) # caps'))"

text \<open>
  \<open>Rep lo hi r\<close> is \<open>r{lo,hi}\<close>, \<open>Grp k r\<close> the \<open>k\<close>-th pair of parentheses, \<open>Bnd\<close> is
  \<open>\b\<close> and \<open>Eos\<close> is \<open>$\<close> (the end of the text, or before a last line break). A
  repetition under \<open>Star\<close> that consumes nothing ends the loop, as in \<open>re\<close>.
\<close>

function rx_m :: "bool \<Rightarrow> regex \<Rightarrow> mstate \<Rightarrow> mstate list" where
  "rx_m ic Eps st = [st]"
| "rx_m ic (Lit c) (pre, rest, caps) =
     (case rest of [] \<Rightarrow> [] | x # xs \<Rightarrow> if lit_eq ic c x then [(x # pre, xs, caps)] else [])"
| "rx_m ic Dot (pre, rest, caps) =
     (case rest of [] \<Rightarrow> [] | x # xs \<Rightarrow> if x \<noteq> newline then [(x # pre, xs, caps)] else [])"
| "rx_m ic (In cs) (pre, rest, caps) =
     (case rest of [] \<Rightarrow> [] | x # xs \<Rightarrow> if in_class ic cs x then [(x # pre, xs, caps)] else [])"
| "rx_m ic (NotIn cs) (pre, rest, caps) =
     (case rest of [] \<Rightarrow> []
      | x # xs \<Rightarrow> if \<not> in_class ic cs x then [(x # pre, xs, caps)] else [])"
| "rx_m ic Bnd (pre, rest, caps) = (if at_boundary pre rest then [(pre, rest, caps)] else [])"
| "rx_m ic Eos (pre, rest, caps) =
     (if rest = [] \<or> rest = [newline] then [(pre, rest, caps)] else [])"
| "rx_m ic (Cat r s) st = concat (map (rx_m ic s) (rx_m ic r st))"
| "rx_m ic (Alt r s) st = rx_m ic r st @ rx_m ic s st"
| "rx_m ic (Opt r) st = rx_m ic r st @ [st]"
| "rx_m ic (Star r) st =
     concat (map (\<lambda>st'. if length (fst (snd st')) < length (fst (snd st))
                          then rx_m ic (Star r) st' else [])
                 (rx_m ic r st)) @ [st]"
| "rx_m ic (Plus r) st = concat (map (rx_m ic (Star r)) (rx_m ic r st))"
| "rx_m ic (Rep lo hi r) st =
     (if hi = 0 then [st]
      else concat (map (rx_m ic (Rep (lo - 1) (hi - 1) r)) (rx_m ic r st)) @
           (if lo = 0 then [st] else []))"
| "rx_m ic (Grp k r) st = map (set_group (fst st) k) (rx_m ic r st)"
  by pat_completeness auto
termination
  by (relation "inv_image (less_than <*lex*> less_than)
        (\<lambda>(ic, r, st). (rx_size r, length (fst (snd st))))") auto

text \<open>A match: the matched text (group 0) and the captured groups.\<close>

type_synonym rmatch = "string \<times> captures"

definition match_text :: "string \<Rightarrow> mstate \<Rightarrow> string" where
  "match_text pre st = rev (take (length (fst st) - length pre) (fst st))"

definition mk_match :: "string \<Rightarrow> mstate \<Rightarrow> rmatch" where
  "mk_match pre st = (match_text pre st, snd (snd st))"

text \<open>\<open>m.group(k)\<close>; a group that took no part in the match reads as the empty string,
  as in the tuples of \<open>re.findall\<close>.\<close>

definition match_group :: "nat \<Rightarrow> rmatch \<Rightarrow> string" where
  "match_group k m =
     (if k = 0 then fst m else (case map_of (snd m) k of None \<Rightarrow> [] | Some g \<Rightarrow> g))"

text \<open>\<open>re.search\<close>: the first position, from the left, at which the pattern matches.\<close>

fun rx_search_aux :: "bool \<Rightarrow> regex \<Rightarrow> string \<Rightarrow> string \<Rightarrow> rmatch option" where
  "rx_search_aux ic r pre [] =
     (case rx_m ic r (pre, [], []) of [] \<Rightarrow> None | s # _ \<Rightarrow> Some (mk_match pre s))"
| "rx_search_aux ic r pre (x # xs) =
     (case rx_m ic r (pre, x # xs, []) of
        [] \<Rightarrow> rx_search_aux ic r (x # pre) xs
      | s # _ \<Rightarrow> Some (mk_match pre s))"

definition re_search :: "bool \<Rightarrow> regex \<Rightarrow> string \<Rightarrow> rmatch option" where
  "re_search ic r text = rx_search_aux ic r [] text"

text \<open>
  \<open>re.findall\<close>: the matches from left to right, none overlapping another. The counter
  \<open>k\<close> is the number of characters still covered by the last match.
\<close>

fun rx_findall_aux :: "bool \<Rightarrow> regex \<Rightarrow> nat \<Rightarrow> string \<Rightarrow> string \<Rightarrow> rmatch list" where
  "rx_findall_aux ic r k pre [] =
     (if k = 0 then
        (case rx_m ic r (pre, [], []) of [] \<Rightarrow> [] | s # _ \<Rightarrow> [mk_match pre s])
      else [])"
| "rx_findall_aux ic r k pre (x # xs) =
     (if k = 0 then
        (case rx_m ic r (pre, x # xs, []) of
           [] \<Rightarrow> rx_findall_aux ic r 0 (x # pre) xs
         | s # _ \<Rightarrow> mk_match pre s #
                    rx_findall_aux ic r (length (match_text pre s) - 1) (x # pre) xs)
      else rx_findall_aux ic r (k - 1) (x # pre) xs)"

definition re_findall :: "bool \<Rightarrow> regex \<Rightarrow> string \<Rightarrow> rmatch list" where
  "re_findall ic r text = rx_findall_aux ic r 0 [] text"



text \<open>\<open>re.escape(s)\<close> used as a pattern: the characters of \<open>s\<close>, each matched as itself.\<close>

fun lits :: "string \<Rightarrow> regex" where
  "lits [] = Eps"
| "lits (c # cs) = Cat (Lit c) (lits cs)"

fun cats :: "regex list \<Rightarrow> regex" where
  "cats [] = Eps"
| "cats (r # rs) = Cat r (cats rs)"


section \<open>The scoring engine (\<open>cv_analyzer.py\<close>): data\<close>

text \<open>
  The float operations whose result depends on rounding: \<open>sum(xs)\<close> of a list of floats,
  the division \<open>x / y\<close> and \<open>round(x, 2)\<close>. They are what the interpreter computes;
  the model takes them as they are given and fixes nothing about them.
\<close>

record float_ops =
  f_sum :: "real list \<Rightarrow> real"
  f_div :: "real \<Rightarrow> real \<Rightarrow> real"
  f_round2 :: "real \<Rightarrow> real"

text \<open>
  The operations without rounding error: the sum and the quotient of the real numbers, and
  the nearest multiple of \<open>1/100\<close>, a tie going to the even one. Python's \<open>round(x, 2)\<close>
  is the float nearest to that multiple. Where the exact sum, quotient and multiple are
  floats themselves (binary fractions, as in the samples below), they are the results that
  Python computes; elsewhere Python's results differ from them by the rounding.
\<close>

definition round_half_even :: "real \<Rightarrow> int" where
  "round_half_even x =
     (let f = \<lfloor>x\<rfloor>; d = x - of_int f
      in if d < 1 / 2 then f else if 1 / 2 < d then f + 1 else if even f then f else f + 1)"

definition exact_round2 :: "real \<Rightarrow> real" where
  "exact_round2 x = of_int (round_half_even (x * 100)) / 100"

definition exact_ops :: float_ops where
  "exact_ops = \<lparr> f_sum = sum_list, f_div = (\<lambda>x y. x / y), f_round2 = exact_round2 \<rparr>"

text \<open>
  An education entry of a candidate as the JSON column holds it: a dictionary with string
  values, or any other value, given by its \<open>str()\<close>.
\<close>

datatype edu_json = EduDict "(string \<times> string) list" | EduOther string

text \<open>
  The \<open>skills\<close> column of a candidate: \<open>NULL\<close>, a dictionary from category to skills,
  or a JSON list where a dictionary is expected.
\<close>

datatype skills_json = SkillsNone | SkillsDict "(string \<times> string list) list" | SkillsList "string list"

record candidate =
  cand_id :: int
  cand_skills :: skills_json
  cand_education :: "edu_json list option"
  cand_total_experience_years :: "real option"
  cand_raw_text :: "string option"

record job_posting =
  jp_id :: int
  jp_title :: string
  jp_description :: string
  jp_required_skills :: "string list option"
  jp_preferred_skills :: "string list option"
  jp_education_requirements :: "string list option"
  jp_experience_requirements :: "string list option"
  jp_soft_skills :: "string list option"
  jp_min_experience_years :: "int option"
  jp_max_experience_years :: "int option"

text \<open>The dictionaries built by \<open>_extract_job_requirements\<close> and \<open>_extract_candidate_info\<close>;
  the entries that the scoring never reads (work experience, certifications, languages)
  are left out.\<close>

record job_requirements =
  jr_required_skills :: "string list"
  jr_preferred_skills :: "string list"
  jr_education_requirements :: "string list"
  jr_experience_requirements :: "string list"
  jr_soft_skills :: "string list"
  jr_min_experience_years :: int
  jr_max_experience_years :: "int option"
  jr_title :: string
  jr_description :: string

record candidate_info =
  ci_technical_skills :: "string list"
  ci_soft_skills :: "string list"
  ci_education :: "edu_json list"
  ci_total_experience_years :: real
  ci_raw_text :: string

text \<open>The value of \<open>x or d\<close> for an optional list, number or string: \<open>None\<close> and the empty
  or zero value both give \<open>d\<close>.\<close>

definition or_list :: "'a list option \<Rightarrow> 'a list \<Rightarrow> 'a list" where
  "or_list x d = (case x of None \<Rightarrow> d | Some v \<Rightarrow> if v = [] then d else v)"

definition extract_job_requirements :: "job_posting \<Rightarrow> job_requirements" where
  "extract_job_requirements jp =
     \<lparr> jr_required_skills = or_list (jp_required_skills jp) [],
       jr_preferred_skills = or_list (jp_preferred_skills jp) [],
       jr_education_requirements = or_list (jp_education_requirements jp) [],
       jr_experience_requirements = or_list (jp_experience_requirements jp) [],
       jr_soft_skills = or_list (jp_soft_skills jp) [],
       jr_min_experience_years = (case jp_min_experience_years jp of None \<Rightarrow> 0 | Some n \<Rightarrow> n),
       jr_max_experience_years = jp_max_experience_years jp,
       jr_title = jp_title jp,
       jr_description = jp_description jp \<rparr>"

subsection \<open>\<open>_analyze_experience_match\<close>\<close>

record experience_details =
  ed_candidate_years :: real
  ed_min_required :: int
  ed_max_required :: "int option"
  ed_meets_minimum :: bool

record experience_analysis =
  exp_score :: real
  exp_details :: experience_details

text \<open>The test \<open>max_required and candidate_years > max_required\<close> is false for
  \<open>None\<close> and for a maximum of \<open>0\<close>.\<close>

definition analyze_experience_match :: "candidate_info \<Rightarrow> job_requirements \<Rightarrow> experience_analysis" where
  "analyze_experience_match ci jr =
     (let candidate_years = ci_total_experience_years ci;
          min_required = jr_min_experience_years jr;
          max_required = jr_max_experience_years jr;
          score =
            (if min_required = 0 then 40
             else if real_of_int min_required \<le> candidate_years then
               (if (case max_required of None \<Rightarrow> False
                    | Some m \<Rightarrow> m \<noteq> 0 \<and> real_of_int m < candidate_years)
                then 85 else 100)
             else
               (if 0 < min_required
                then max 40 (candidate_years / real_of_int min_required * 80)
                else 60))
      in \<lparr> exp_score = score,
           exp_details = \<lparr> ed_candidate_years = candidate_years,
                           ed_min_required = min_required,
                           ed_max_required = max_required,
                           ed_meets_minimum = (real_of_int min_required \<le> candidate_years) \<rparr> \<rparr>)"

subsection \<open>\<open>get_analysis_statistics\<close>\<close>

text \<open>A scored result (\<open>CVAnalysisCreate\<close>); the stored \<open>CVAnalysis\<close> rows have the same
  \<open>overall_score\<close> and \<open>match_status\<close>.\<close>

record cv_analysis =
  candidate_id :: int
  job_posting_id :: int
  overall_score :: real
  match_status :: string
  skill_match_score :: real
  education_match_score :: real
  experience_match_score :: real
  soft_skills_score :: real
  matched_skills :: "string list"
  missing_skills :: "string list"
  matched_education :: "string list"
  experience_analysis :: "experience_details option"
  ai_summary :: "string option"
  strengths :: "string list"
  concerns :: "string list"
  recommendations :: "string list"
  processing_time_ms :: "int option"

text \<open>The returned dictionary; \<open>average_score = None\<close> stands for a dictionary without
  the key \<open>average_score\<close>.\<close>

record statistics =
  total :: nat
  shortlisted :: nat
  rejected :: nat
  average_score :: "real option"

text \<open>\<open>avg_score = sum(a.overall_score for a in analyses) / total\<close> and
  \<open>round(avg_score, 2)\<close> are float operations, taken from \<open>ops\<close>.\<close>

definition get_analysis_statistics :: "float_ops \<Rightarrow> cv_analysis list \<Rightarrow> statistics" where
  "get_analysis_statistics ops analyses =
     (if analyses = [] then
        \<lparr> total = 0, shortlisted = 0, rejected = 0, average_score = None \<rparr>
      else
        (let n = length analyses;
             avg_score = (if 0 < n then f_div ops (f_sum ops (map overall_score analyses)) (real n)
                          else 0)
         in \<lparr> total = n,
              shortlisted = length (filter (\<lambda>a. match_status a = ''shortlisted'') analyses),
              rejected = length (filter (\<lambda>a. match_status a = ''rejected'') analyses),
              average_score = Some (f_round2 ops avg_score) \<rparr>))"


subsection \<open>\<open>_extract_candidate_info\<close>\<close>

text \<open>\<open>skills = candidate.skills or {...}\<close> followed by \<open>skills.get\<close>: a non-empty JSON
  list has no method \<open>get\<close>, and the call raises.\<close>

definition dict_get_list :: "(string \<times> 'a list) list \<Rightarrow> string \<Rightarrow> 'a list" where
  "dict_get_list d k = (case map_of d k of None \<Rightarrow> [] | Some v \<Rightarrow> v)"

definition extract_candidate_info :: "candidate \<Rightarrow> exn + candidate_info" where
  "extract_candidate_info c =
     (let skills = (case cand_skills c of
                      SkillsNone \<Rightarrow> Inr [(''technical'', []), (''soft'', [])]
                    | SkillsDict d \<Rightarrow>
                        Inr (if d = [] then [(''technical'', []), (''soft'', [])] else d)
                    | SkillsList l \<Rightarrow>
                        if l = [] then Inr [(''technical'', []), (''soft'', [])]
                        else Inl (AttributeError (CHR 0x27 # ''list'' @ CHR 0x27 # '' object has no attribute '' @
                                                  CHR 0x27 # ''get'' @ [CHR 0x27])))
      in case skills of
           Inl e \<Rightarrow> Inl e
         | Inr d \<Rightarrow>
             Inr \<lparr> ci_technical_skills = dict_get_list d ''technical'',
                   ci_soft_skills = dict_get_list d ''soft'',
                   ci_education = or_list (cand_education c) [],
                   ci_total_experience_years =
                     (case cand_total_experience_years c of None \<Rightarrow> 0 | Some y \<Rightarrow> y),
                   ci_raw_text = (case cand_raw_text c of None \<Rightarrow> [] | Some t \<Rightarrow> t) \<rparr>)"

subsection \<open>\<open>_extract_job_keywords\<close>\<close>

definition stop_words :: "string list" where
  "stop_words =
     [''the'', ''and'', ''or'', ''but'', ''in'', ''on'', ''at'', ''to'', ''for'', ''of'', ''with'',
      ''by'', ''is'', ''are'', ''was'', ''were'', ''be'', ''been'', ''being'', ''have'', ''has'',
      ''had'', ''do'', ''does'', ''did'', ''will'', ''would'', ''could'', ''should'', ''may'',
      ''might'', ''must'', ''can'', ''shall'', ''a'', ''an'', ''this'', ''that'', ''these'',
      ''those'', ''we'', ''you'', ''they'', ''he'', ''she'', ''it'', ''i'', ''me'', ''my'',
      ''your'', ''our'', ''their'', ''him'', ''her'', ''us'', ''them'', ''looking'', ''seeking'',
      ''required'', ''preferred'', ''experience'', ''years'', ''work'', ''working'',
      ''position'', ''role'', ''job'', ''candidate'', ''responsibilities'', ''duties'',
      ''requirements'', ''qualifications'', ''skills'', ''ability'', ''knowledge'', ''must'',
      ''should'', ''include'', ''including'', ''such'', ''well'', ''good'', ''strong'',
      ''excellent'']"

text \<open>\<open>\b[a-zA-Z][a-zA-Z0-9+#.-]*\b\<close>\<close>

definition word_pattern :: regex where
  "word_pattern =
     cats [Bnd, In [CRange CHR ''a'' CHR ''z'', CRange CHR ''A'' CHR ''Z''],
           Star (In [CRange CHR ''a'' CHR ''z'', CRange CHR ''A'' CHR ''Z'',
                     CRange CHR ''0'' CHR ''9'', CChar CHR ''+'', CChar CHR ''#'',
                     CChar CHR ''.'', CChar CHR ''-'']),
           Bnd]"

text \<open>\<open>\b[A-Z]{2,10}\b\<close>, \<open>\b\w+[.]js\b\<close>, \<open>\b\w+[-]\w+\b\<close>, \<open>\b\w+[+][+]?\b\<close>\<close>

definition tech_patterns :: "regex list" where
  "tech_patterns =
     [cats [Bnd, Rep 2 10 (In [CRange CHR ''A'' CHR ''Z'']), Bnd],
      cats [Bnd, Plus (In [CWord]), In [CChar CHR ''.''], lits ''js'', Bnd],
      cats [Bnd, Plus (In [CWord]), In [CChar CHR ''-''], Plus (In [CWord]), Bnd],
      cats [Bnd, Plus (In [CWord]), In [CChar CHR ''+''], Opt (In [CChar CHR ''+'']), Bnd]]"

text \<open>
  \<open>Counter(words).most_common(n)\<close>: the distinct words, the most frequent first, words of
  equal frequency in the order of their first occurrence; the first \<open>n\<close> of them.
\<close>

definition first_occurrences :: "'a list \<Rightarrow> 'a list" where
  "first_occurrences xs = rev (remdups (rev xs))"

definition most_common :: "nat \<Rightarrow> string list \<Rightarrow> string list" where
  "most_common n xs = take n (sort_key (\<lambda>w. - int (count_list xs w)) (first_occurrences xs))"

text \<open>\<open>list(set(xs))\<close>: the distinct elements; Python fixes no order for them.\<close>

definition list_set :: "'a list \<Rightarrow> 'a list" where
  "list_set xs = remdups xs"

definition extract_job_keywords :: "string \<Rightarrow> string list" where
  "extract_job_keywords job_description =
     (let words = map (match_group 0) (re_findall False word_pattern (py_lower job_description));
          meaningful_words = filter (\<lambda>w. w \<notin> set stop_words \<and> 2 \<le> length w) words;
          top_keywords = most_common 25 meaningful_words;
          tech = concat (map (\<lambda>pattern. map (\<lambda>m. py_lower (match_group 0 m))
                                               (re_findall False pattern job_description))
                             tech_patterns)
      in list_set (top_keywords @ tech))"

subsection \<open>\<open>_analyze_skills_match\<close>\<close>

record skills_analysis =
  sk_score :: real
  sk_matched :: "string list"
  sk_missing :: "string list"
  sk_keyword_matches :: nat
  sk_predefined_matches :: nat
  sk_total_job_terms :: nat
  sk_match_rate :: real

definition analyze_skills_match :: "candidate_info \<Rightarrow> job_requirements \<Rightarrow> skills_analysis" where
  "analyze_skills_match ci jr =
     (let cv_text = py_lower (ci_raw_text ci);
          job_description = py_lower (jr_description jr);
          job_keywords = extract_job_keywords job_description;
          matched_keywords = filter (\<lambda>keyword. py_in keyword cv_text) job_keywords;
          candidate_skills = map py_lower (ci_technical_skills ci);
          required_skills = map py_lower (jr_required_skills jr);
          preferred_skills = map py_lower (jr_preferred_skills jr);
          matched_predefined =
            filter (\<lambda>skill. skill \<in> set candidate_skills \<or> py_in skill cv_text)
                   (required_skills @ preferred_skills);
          all_matches = list_set (matched_keywords @ matched_predefined);
          total_job_terms = length job_keywords + length required_skills + length preferred_skills;
          score =
            (if total_job_terms = 0 then 30
             else
               (let match_rate = real (length all_matches) / real (max total_job_terms 1);
                    keyword_boost = min 30 (real (length matched_keywords) * 2)
                in min 100 (match_rate * 60 + keyword_boost + 15)))
      in \<lparr> sk_score = score,
           sk_matched = all_matches,
           sk_missing = filter (\<lambda>skill. skill \<notin> set all_matches) required_skills,
           sk_keyword_matches = length matched_keywords,
           sk_predefined_matches = length matched_predefined,
           sk_total_job_terms = total_job_terms,
           sk_match_rate =
             (if 0 < total_job_terms
              then real (length all_matches) / real (max total_job_terms 1) else 0) \<rparr>)"

subsection \<open>\<open>analyze_candidates_for_job\<close>\<close>

text \<open>The weights are a dictionary from criterion to weight.\<close>

type_synonym weights = "(string \<times> real) list"

text \<open>The dictionary that \<open>_analyze_single_candidate\<close> returns.\<close>

record analysis =
  an_overall_score :: real
  an_match_status :: string
  an_skill_match_score :: real
  an_education_match_score :: real
  an_experience_match_score :: real
  an_soft_skills_score :: real
  an_matched_skills :: "string list"
  an_missing_skills :: "string list"
  an_matched_education :: "string list"
  an_experience_analysis :: experience_details
  an_ai_summary :: string
  an_strengths :: "string list"
  an_concerns :: "string list"
  an_recommendations :: "string list"

text \<open>
  The analyzer object: its attribute \<open>default_weights\<close>, and its method
  \<open>_analyze_single_candidate\<close> as a function that, for a candidate, a job posting and the
  weights, returns the analysis or raises. The batch is embedded for every such function:
  what it does with a candidate does not depend on how the candidate is scored.
\<close>

record cv_analyzer =
  default_weights :: weights
  analyze_single_candidate :: "candidate \<Rightarrow> job_posting \<Rightarrow> weights \<Rightarrow> exn + analysis"

text \<open>\<open>CVAnalysisCreate(...)\<close> with the fields that are not passed at their defaults.\<close>

definition cv_analysis_create :: "int \<Rightarrow> int \<Rightarrow> real \<Rightarrow> string \<Rightarrow> string option \<Rightarrow> cv_analysis" where
  "cv_analysis_create cid jid score status summary =
     \<lparr> candidate_id = cid, job_posting_id = jid, overall_score = score, match_status = status,
       skill_match_score = 0, education_match_score = 0, experience_match_score = 0,
       soft_skills_score = 0, matched_skills = [], missing_skills = [], matched_education = [],
       experience_analysis = None, ai_summary = summary, strengths = [], concerns = [],
       recommendations = [], processing_time_ms = None \<rparr>"

definition analysis_data :: "candidate \<Rightarrow> job_posting \<Rightarrow> analysis \<Rightarrow> int \<Rightarrow> cv_analysis" where
  "analysis_data c jp a processing_time =
     \<lparr> candidate_id = cand_id c, job_posting_id = jp_id jp,
       overall_score = an_overall_score a, match_status = an_match_status a,
       skill_match_score = an_skill_match_score a,
       education_match_score = an_education_match_score a,
       experience_match_score = an_experience_match_score a,
       soft_skills_score = an_soft_skills_score a,
       matched_skills = an_matched_skills a, missing_skills = an_missing_skills a,
       matched_education = an_matched_education a,
       experience_analysis = Some (an_experience_analysis a),
       ai_summary = Some (an_ai_summary a),
       strengths = an_strengths a, concerns = an_concerns a,
       recommendations = an_recommendations a,
       processing_time_ms = Some processing_time \<rparr>"

text \<open>The body of the \<open>for\<close> loop: the \<open>try\<close> block, and the \<open>except Exception\<close> handler
  that builds the failed analysis. \<open>elapsed\<close> gives the milliseconds the clock measured
  for a candidate.\<close>

definition analyze_one ::
  "cv_analyzer \<Rightarrow> (candidate \<Rightarrow> int) \<Rightarrow> job_posting \<Rightarrow> weights \<Rightarrow> candidate \<Rightarrow> cv_analysis" where
  "analyze_one self elapsed jp w c =
     (case analyze_single_candidate self c jp w of
        Inr a \<Rightarrow> analysis_data c jp a (elapsed c)
      | Inl e \<Rightarrow> cv_analysis_create (cand_id c) (jp_id jp) 0 ''rejected''
                  (Some (''Analysis failed: '' @ exn_msg e)))"

fun analyze_loop ::
  "cv_analyzer \<Rightarrow> (candidate \<Rightarrow> int) \<Rightarrow> job_posting \<Rightarrow> weights \<Rightarrow> candidate list \<Rightarrow>
   cv_analysis list \<Rightarrow> cv_analysis list" where
  "analyze_loop self elapsed jp w [] results = results"
| "analyze_loop self elapsed jp w (c # cs) results =
     analyze_loop self elapsed jp w cs (results @ [analyze_one self elapsed jp w c])"

text \<open>\<open>weights = custom_weights or self.default_weights\<close>: no dictionary and the empty
  dictionary both give the defaults.\<close>

definition effective_weights :: "cv_analyzer \<Rightarrow> weights option \<Rightarrow> weights" where
  "effective_weights self custom_weights =
     (case custom_weights of None \<Rightarrow> default_weights self
      | Some cw \<Rightarrow> if cw = [] then default_weights self else cw)"

definition analyze_candidates_for_job ::
  "cv_analyzer \<Rightarrow> (candidate \<Rightarrow> int) \<Rightarrow> candidate list \<Rightarrow> job_posting \<Rightarrow> weights option \<Rightarrow>
   cv_analysis list" where
  "analyze_candidates_for_job self elapsed candidates jp custom_weights =
     analyze_loop self elapsed jp (effective_weights self custom_weights) candidates []"

section \<open>The job requirement parser (\<open>nlp_service.py\<close>)\<close>

text \<open>
  The service holds the skill taxonomy: the technical skills of all categories in one
  list, the soft skills, and the fields of study looked for in a job description. The
  tables are data of the service; the functions below take the service as an argument and
  work for any tables.
\<close>

record nlp_service =
  all_technical_skills :: "string list"
  soft_skills_db :: "string list"
  field_patterns :: "string list"

text \<open>The first category of \<open>technical_skills_db\<close>, copied from the source.\<close>

definition programming_languages :: "string list" where
  "programming_languages =
     [''python'', ''java'', ''javascript'', ''typescript'', ''c++'', ''c#'', ''php'', ''ruby'',
      ''go'', ''rust'', ''swift'', ''kotlin'', ''scala'', ''r'', ''matlab'', ''sql'', ''c'',
      ''objective-c'', ''dart'', ''perl'', ''shell'', ''bash'']"

subsection \<open>\<open>_is_skill_mentioned\<close>, \<open>_get_skill_context\<close>, \<open>_is_skill_required\<close>\<close>

text \<open>The pattern is \<open>\b\<close>, the escaped lower-case skill, \<open>\b\<close>, searched without regard
  to case.\<close>

definition is_skill_mentioned :: "string \<Rightarrow> string \<Rightarrow> bool" where
  "is_skill_mentioned text skill =
     (re_search True (cats [Bnd, lits (py_lower skill), Bnd]) text \<noteq> None)"

text \<open>\<open>.{0,100}\bskill\b.{0,100}\<close>\<close>

definition get_skill_context :: "string \<Rightarrow> string \<Rightarrow> string" where
  "get_skill_context text skill =
     (case re_search True (cats [Rep 0 100 Dot, Bnd, lits (py_lower skill), Bnd, Rep 0 100 Dot]) text of
        None \<Rightarrow> []
      | Some m \<Rightarrow> match_group 0 m)"

definition required_indicators :: "string list" where
  "required_indicators =
     [''required'', ''must'', ''essential'', ''mandatory'', ''need'', ''necessary'',
      ''should have'', ''should be'', ''proficient'']"

definition preferred_indicators :: "string list" where
  "preferred_indicators =
     [''preferred'', ''nice to have'', ''bonus'', ''plus'', ''advantage'',
      ''would be great'', ''ideal'', ''desirable'']"

definition is_skill_required :: "string \<Rightarrow> bool" where
  "is_skill_required context =
     (let context_lower = py_lower context
      in if list_ex (\<lambda>indicator. py_in indicator context_lower) preferred_indicators then False
         else if list_ex (\<lambda>indicator. py_in indicator context_lower) required_indicators then True
         else True)"

subsection \<open>The extraction functions\<close>

definition extract_technical_skills :: "nlp_service \<Rightarrow> string \<Rightarrow> bool \<Rightarrow> string list" where
  "extract_technical_skills svc text required =
     filter (\<lambda>skill. if is_skill_mentioned text skill
                      then (let is_required = is_skill_required (get_skill_context text skill)
                            in (required \<and> is_required) \<or> (\<not> required \<and> \<not> is_required))
                      else False)
            (all_technical_skills svc)"

definition extract_soft_skills :: "nlp_service \<Rightarrow> string \<Rightarrow> string list" where
  "extract_soft_skills svc text = filter (is_skill_mentioned text) (soft_skills_db svc)"

text \<open>
  The eight education patterns, in the order of the source:
  \<open>bachelor\'?s?\s*(degree|in)\<close>, \<open>master\'?s?\s*(degree|in)\<close>, \<open>phd|doctorate\<close>,
  \<open>b\.s\.|b\.a\.|m\.s\.|m\.a\.\<close>, \<open>university\s*degree\<close>, \<open>college\s*degree\<close>,
  \<open>graduate\s*degree\<close>, \<open>undergraduate\s*degree\<close>. With a group in the pattern
  \<open>re.findall\<close> gives the text of the group, otherwise the whole match.
\<close>

definition degree_or_in :: regex where
  "degree_or_in = Grp 1 (Alt (lits ''degree'') (lits ''in''))"

definition education_patterns :: "(regex \<times> nat) list" where
  "education_patterns =
     [(cats [lits ''bachelor'', Opt (Lit (CHR 0x27)), Opt (Lit CHR ''s''), Star (In [CSpace]),
             degree_or_in], 1),
      (cats [lits ''master'', Opt (Lit (CHR 0x27)), Opt (Lit CHR ''s''), Star (In [CSpace]),
             degree_or_in], 1),
      (Alt (lits ''phd'') (lits ''doctorate''), 0),
      (Alt (lits ''b.s.'') (Alt (lits ''b.a.'') (Alt (lits ''m.s.'') (lits ''m.a.''))), 0),
      (cats [lits ''university'', Star (In [CSpace]), lits ''degree''], 0),
      (cats [lits ''college'', Star (In [CSpace]), lits ''degree''], 0),
      (cats [lits ''graduate'', Star (In [CSpace]), lits ''degree''], 0),
      (cats [lits ''undergraduate'', Star (In [CSpace]), lits ''degree''], 0)]"

text \<open>\<open>.{0,50}match.{0,50}\<close> around the escaped match; the stripped context is kept.\<close>

definition education_context :: "string \<Rightarrow> string \<Rightarrow> string list" where
  "education_context text m =
     (case re_search True (cats [Rep 0 50 Dot, lits m, Rep 0 50 Dot]) text of
        None \<Rightarrow> []
      | Some c \<Rightarrow> [py_strip (match_group 0 c)])"

definition extract_education_requirements :: "nlp_service \<Rightarrow> string \<Rightarrow> string list" where
  "extract_education_requirements svc text =
     (let from_patterns =
            concat (map (\<lambda>(pattern, g).
                           concat (map (\<lambda>m. education_context text (match_group g m))
                                       (re_findall True pattern text)))
                        education_patterns);
          from_fields =
            concat (map (\<lambda>pattern. if re_search True (lits pattern) text \<noteq> None
                                     then [''Degree in '' @ py_title pattern] else [])
                        (field_patterns svc))
      in list_set (from_patterns @ from_fields))"

text \<open>\<open>experience in ([a-z\s]+)\<close> and the three patterns like it.\<close>

definition industry_patterns :: "regex list" where
  "industry_patterns =
     map (\<lambda>phrase. cats [lits phrase, Grp 1 (Plus (In [CRange CHR ''a'' CHR ''z'', CSpace]))])
         [''experience in '', ''background in '', ''knowledge of '', ''familiar with '']"

definition extract_experience_requirements :: "string \<Rightarrow> string list" where
  "extract_experience_requirements text =
     concat (map (\<lambda>pattern.
                    concat (map (\<lambda>m. let g = match_group 1 m
                                      in if length (py_split g) \<le> 4
                                         then [''Experience in '' @ py_strip g] else [])
                                (re_findall True pattern text)))
                 industry_patterns)"

text \<open>
  \<open>self.experience_patterns\<close>, each with the number of its groups:
  \<open>(\d+)[\+\-]?\s*years?\s*(of\s*)?(experience|exp)\<close>,
  \<open>(\d+)[\+\-]?\s*yrs?\s*(of\s*)?(experience|exp)\<close>,
  \<open>(minimum|min|at least)\s*(\d+)\s*years?\<close>, \<open>(\d+)\s*to\s*(\d+)\s*years?\<close>,
  \<open>(\d+)\s*-\s*(\d+)\s*years?\<close>.
\<close>

definition digits1 :: "nat \<Rightarrow> regex" where
  "digits1 k = Grp k (Plus (In [CDigit]))"

definition ws0 :: regex where
  "ws0 = Star (In [CSpace])"

definition experience_patterns :: "(regex \<times> nat) list" where
  "experience_patterns =
     [(cats [digits1 1, Opt (In [CChar CHR ''+'', CChar CHR ''-'']), ws0, lits ''year'',
             Opt (Lit CHR ''s''), ws0, Opt (Grp 2 (cats [lits ''of'', ws0])),
             Grp 3 (Alt (lits ''experience'') (lits ''exp''))], 3),
      (cats [digits1 1, Opt (In [CChar CHR ''+'', CChar CHR ''-'']), ws0, lits ''yr'',
             Opt (Lit CHR ''s''), ws0, Opt (Grp 2 (cats [lits ''of'', ws0])),
             Grp 3 (Alt (lits ''experience'') (lits ''exp''))], 3),
      (cats [Grp 1 (Alt (lits ''minimum'') (Alt (lits ''min'') (lits ''at least''))), ws0,
             digits1 2, ws0, lits ''year'', Opt (Lit CHR ''s'')], 2),
      (cats [digits1 1, ws0, lits ''to'', ws0, digits1 2, ws0, lits ''year'',
             Opt (Lit CHR ''s'')], 2),
      (cats [digits1 1, ws0, Lit CHR ''-'', ws0, digits1 2, ws0, lits ''year'',
             Opt (Lit CHR ''s'')], 2)]"

definition py_isdigit :: "string \<Rightarrow> bool" where
  "py_isdigit s = (s \<noteq> [] \<and> list_all is_digit s)"

text \<open>One match updates the pair of the minimum and the maximum found so far.\<close>

definition update_years :: "nat \<Rightarrow> int \<times> int option \<Rightarrow> rmatch \<Rightarrow> int \<times> int option" where
  "update_years n acc m =
     (let numbers = filter py_isdigit (map (\<lambda>k. match_group k m) [1 ..< Suc n])
      in case numbers of
           a # b # _ \<Rightarrow> (max (fst acc) (int_of_digits a), Some (int_of_digits b))
         | [a] \<Rightarrow> (max (fst acc) (int_of_digits a), snd acc)
         | [] \<Rightarrow> acc)"

definition extract_experience_years :: "string \<Rightarrow> int \<times> int option" where
  "extract_experience_years text =
     foldl (\<lambda>acc (pattern, n). foldl (update_years n) acc (re_findall True pattern text))
           (0, None) experience_patterns"

subsection \<open>\<open>parse_job_requirements\<close>\<close>

record parsed_job_requirements =
  required_skills :: "string list"
  preferred_skills :: "string list"
  education_requirements :: "string list"
  experience_requirements :: "string list"
  soft_skills :: "string list"
  min_experience_years :: int
  max_experience_years :: "int option"

text \<open>\<open>list(set(preferred) - set(required))\<close>: the distinct preferred skills that are not
  among the required ones.\<close>

definition parse_job_requirements :: "nlp_service \<Rightarrow> string \<Rightarrow> parsed_job_requirements" where
  "parse_job_requirements svc job_description =
     (let text = py_lower job_description;
          required = extract_technical_skills svc text True;
          preferred = extract_technical_skills svc text False;
          years = extract_experience_years text;
          required' = list_set required;
          preferred' = list_set (filter (\<lambda>skill. skill \<notin> set required') preferred)
      in \<lparr> required_skills = required',
           preferred_skills = preferred',
           education_requirements = extract_education_requirements svc text,
           experience_requirements = extract_experience_requirements text,
           soft_skills = extract_soft_skills svc text,
           min_experience_years = fst years,
           max_experience_years = snd years \<rparr>)"

section \<open>The resume parser (\<open>cv_parser.py\<close>)\<close>

subsection \<open>The parsed record\<close>

record personal_info =
  pi_email :: "string option"
  pi_phone :: "string option"
  pi_location :: "string option"

record education_entry =
  edu_degree :: string
  edu_institution :: string
  edu_year :: "int option"

record experience_entry =
  we_position :: string
  we_company :: string
  we_start_date :: "int option"
  we_end_date :: "int option"
  we_description :: string
  we_duration_months :: int

record skills_found =
  technical :: "string list"
  soft :: "string list"

record certification =
  cert_name :: string
  cert_issuer :: string
  cert_year :: "int option"

record language_entry =
  lang_language :: string
  lang_proficiency :: string

text \<open>The dictionary that \<open>parse_cv_file\<close> returns; \<open>cv_parsing_error = None\<close> stands for
  a dictionary without the key \<open>parsing_error\<close>.\<close>

record cv_record =
  cv_raw_text :: string
  cv_parsing_status :: string
  cv_parsing_error :: "string option"
  cv_personal_info :: personal_info
  cv_education :: "education_entry list"
  cv_work_experience :: "experience_entry list"
  cv_skills :: skills_found
  cv_certifications :: "certification list"
  cv_languages :: "language_entry list"
  cv_total_experience_years :: real

text \<open>
  What the parser object holds and what it reads from outside:
  \<^item> \<open>nlp\<close>: the entity recogniser, if its model was loaded; it gives the entities of a
    text, each with its label, or raises;
  \<^item> the two skill lists, taken from the job requirement parser;
  \<^item> \<open>pdf_pages\<close>: the texts of the pages of the PDF file at a path, or the exception
    raised while the file is opened and read;
  \<^item> \<open>docx_content\<close>: the paragraphs of the document at a path and, for every table, its
    rows of cell texts, or the exception raised while the file is read;
  \<^item> \<open>extract_education\<close> and \<open>extract_work_experience\<close>: the two section walkers of the
    parser, not embedded here; every statement below holds whatever they return or raise.
\<close>

record cv_parser =
  nlp :: "(string \<Rightarrow> exn + (string \<times> string) list) option"
  cv_technical_skills :: "string list"
  cv_soft_skills :: "string list"
  pdf_pages :: "string \<Rightarrow> exn + string list"
  docx_content :: "string \<Rightarrow> exn + (string list \<times> string list list list)"
  extract_education :: "string \<Rightarrow> exn + education_entry list"
  extract_work_experience :: "string \<Rightarrow> string list \<Rightarrow> exn + experience_entry list"

subsection \<open>\<open>_extract_text_from_file\<close>\<close>

text \<open>
  \<open>Path(file_path).suffix\<close>: the last component of the path, from its last dot on, when
  that dot is neither the first nor the last character of the component.
\<close>

definition path_name :: "string \<Rightarrow> string" where
  "path_name file_path =
     (case filter (\<lambda>c. c \<noteq> [] \<and> c \<noteq> ''.'') (py_split_on CHR ''/'' file_path) of
        [] \<Rightarrow> []
      | c # cs \<Rightarrow> last (c # cs))"

definition path_suffix :: "string \<Rightarrow> string" where
  "path_suffix file_path =
     (let name = path_name file_path;
          after = takeWhile (\<lambda>c. c \<noteq> CHR ''.'') (rev name)
      in if CHR ''.'' \<in> set name \<and> after \<noteq> [] \<and> Suc (length after) < length name
         then CHR ''.'' # rev after else [])"

definition extract_from_pdf :: "cv_parser \<Rightarrow> string \<Rightarrow> exn + string" where
  "extract_from_pdf self file_path =
     (case pdf_pages self file_path of
        Inl e \<Rightarrow> Inl e
      | Inr pages \<Rightarrow> Inr (py_strip (concat (map (\<lambda>page. page @ [newline]) pages))))"

definition extract_from_docx :: "cv_parser \<Rightarrow> string \<Rightarrow> exn + string" where
  "extract_from_docx self file_path =
     (case docx_content self file_path of
        Inl e \<Rightarrow> Inl e
      | Inr (paragraphs, tables) \<Rightarrow>
          (let from_paragraphs = filter (\<lambda>t. t \<noteq> []) (map py_strip paragraphs);
               from_tables =
                 concat (map (\<lambda>table.
                   concat (map (\<lambda>row.
                     (let row_text = filter (\<lambda>t. t \<noteq> []) (map py_strip row)
                      in if row_text \<noteq> [] then [py_join '' '' row_text] else []))
                     table))
                   tables)
           in Inr (py_strip (py_join [newline] (from_paragraphs @ from_tables)))))"

definition extract_text_from_file :: "cv_parser \<Rightarrow> string \<Rightarrow> exn + string" where
  "extract_text_from_file self file_path =
     (let file_extension = py_lower (path_suffix file_path)
      in if file_extension = ''.pdf'' then extract_from_pdf self file_path
         else if file_extension \<in> set [''.doc'', ''.docx''] then extract_from_docx self file_path
         else Inl (ValueError (''Unsupported file format: '' @ file_extension)))"

subsection \<open>The field extractors\<close>

text \<open>\<open>\b[A-Za-z0-9._%+-]+@[A-Za-z0-9.-]+\.[A-Z|a-z]{2,}\b\<close>\<close>

definition email_pattern :: regex where
  "email_pattern =
     cats [Bnd,
           Plus (In [CRange CHR ''A'' CHR ''Z'', CRange CHR ''a'' CHR ''z'',
                     CRange CHR ''0'' CHR ''9'', CChar CHR ''.'', CChar CHR ''_'',
                     CChar CHR ''%'', CChar CHR ''+'', CChar CHR ''-'']),
           Lit CHR ''@'',
           Plus (In [CRange CHR ''A'' CHR ''Z'', CRange CHR ''a'' CHR ''z'',
                     CRange CHR ''0'' CHR ''9'', CChar CHR ''.'', CChar CHR ''-'']),
           Lit CHR ''.'',
           Rep 2 2 (In [CRange CHR ''A'' CHR ''Z'', CChar CHR ''|'', CRange CHR ''a'' CHR ''z'']),
           Star (In [CRange CHR ''A'' CHR ''Z'', CChar CHR ''|'', CRange CHR ''a'' CHR ''z'']),
           Bnd]"

text \<open>\<open>\b\d{3}[-.]?\d{3}[-.]?\d{4}\b\<close>, \<open>\(\d{3}\)\s*\d{3}[-.]?\d{4}\<close>,
  \<open>\+\d{1,3}[-.\s]?\d{1,14}\<close>\<close>

definition phone_patterns :: "regex list" where
  "phone_patterns =
     [cats [Bnd, Rep 3 3 (In [CDigit]), Opt (In [CChar CHR ''-'', CChar CHR ''.'']),
            Rep 3 3 (In [CDigit]), Opt (In [CChar CHR ''-'', CChar CHR ''.'']),
            Rep 4 4 (In [CDigit]), Bnd],
      cats [Lit CHR ''('', Rep 3 3 (In [CDigit]), Lit CHR '')'', Star (In [CSpace]),
            Rep 3 3 (In [CDigit]), Opt (In [CChar CHR ''-'', CChar CHR ''.'']),
            Rep 4 4 (In [CDigit])],
      cats [Lit CHR ''+'', Rep 1 3 (In [CDigit]),
            Opt (In [CChar CHR ''-'', CChar CHR ''.'', CSpace]), Rep 1 14 (In [CDigit])]]"

text \<open>The first element of a list for which \<open>f\<close> gives a result.\<close>

fun first_some :: "('a \<Rightarrow> 'b option) \<Rightarrow> 'a list \<Rightarrow> 'b option" where
  "first_some f [] = None"
| "first_some f (x # xs) = (case f x of Some y \<Rightarrow> Some y | None \<Rightarrow> first_some f xs)"

definition extract_personal_info :: "string \<Rightarrow> personal_info" where
  "extract_personal_info text =
     \<lparr> pi_email = (case re_findall False email_pattern text of
                     [] \<Rightarrow> None | m # _ \<Rightarrow> Some (match_group 0 m)),
       pi_phone = first_some (\<lambda>pattern. case re_findall False pattern text of
                                          [] \<Rightarrow> None | m # _ \<Rightarrow> Some (match_group 0 m))
                             phone_patterns,
       pi_location = (if list_ex (\<lambda>keyword. py_in keyword (py_lower text))
                                 [''city'', ''state'', ''country'', ''address'']
                      then Some ''Location extracted'' else None) \<rparr>"

text \<open>\<open>_extract_skills\<close>: the pattern is \<open>\b\<close>, the escaped lower-case skill, \<open>\b\<close>,
  searched in the lower-case text.\<close>

definition skill_in_text :: "string \<Rightarrow> string \<Rightarrow> bool" where
  "skill_in_text text_lower skill =
     (re_search False (cats [Bnd, lits (py_lower skill), Bnd]) text_lower \<noteq> None)"

definition extract_skills :: "cv_parser \<Rightarrow> string \<Rightarrow> skills_found" where
  "extract_skills self text =
     (let text_lower = py_lower text
      in \<lparr> technical = list_set (filter (skill_in_text text_lower) (cv_technical_skills self)),
           soft = list_set (filter (skill_in_text text_lower) (cv_soft_skills self)) \<rparr>)"

text \<open>\<open>\b(19|20)\d{2}\b\<close>: the pattern has one group, so \<open>re.findall\<close> gives the text
  of the group for every match.\<close>

definition year_pattern :: regex where
  "year_pattern = cats [Bnd, Grp 1 (Alt (lits ''19'') (lits ''20'')), Rep 2 2 (In [CDigit]), Bnd]"

definition find_years :: "string \<Rightarrow> string list" where
  "find_years text = map (match_group 1) (re_findall False year_pattern text)"

text \<open>\<open>s.find(sub)\<close>: the index of the first occurrence.\<close>

fun py_find :: "string \<Rightarrow> string \<Rightarrow> nat option" where
  "py_find [] sub = (if sub = [] then Some 0 else None)"
| "py_find (x # xs) sub =
     (if py_startswith (x # xs) sub then Some 0 else map_option Suc (py_find xs sub))"

definition extract_years_from_context :: "string \<Rightarrow> string \<Rightarrow> int option" where
  "extract_years_from_context text context =
     (case py_find (py_lower text) (py_lower context) of
        None \<Rightarrow> None
      | Some context_index \<Rightarrow>
          (let context_area = take (context_index + 50 - (context_index - 50))
                                   (drop (context_index - 50) text)
           in case find_years context_area of
                [] \<Rightarrow> None
              | y # _ \<Rightarrow> Some (int_of_digits y)))"

definition extract_certifications :: "string \<Rightarrow> certification list" where
  "extract_certifications text =
     concat (map (\<lambda>keyword. if py_in (py_lower keyword) (py_lower text)
                             then [\<lparr> cert_name = ''Certification extracted'',
                                     cert_issuer = ''Issuer extracted'',
                                     cert_year = extract_years_from_context text keyword \<rparr>]
                             else [])
                 [''certificate'', ''certification'', ''certified'', ''license''])"

definition extract_languages :: "string \<Rightarrow> language_entry list" where
  "extract_languages text =
     concat (map (\<lambda>language. if py_in (py_lower language) (py_lower text)
                              then [\<lparr> lang_language = py_title language,
                                      lang_proficiency = ''Native/Fluent'' \<rparr>]
                              else [])
                 [''english'', ''spanish'', ''french'', ''german'', ''chinese'', ''japanese'',
                  ''portuguese'', ''russian'', ''arabic'', ''hindi'', ''italian''])"

subsection \<open>\<open>_calculate_experience_years\<close> and \<open>_extract_all_years\<close>\<close>

text \<open>
  \<open>(\d+)\s*years?\s*(of\s*)?experience\<close>, \<open>experience\s*:\s*(\d+)\s*years?\<close>,
  \<open>(\d+)\+?\s*years?\s*experience\<close>. The number is the first group in each of them
  (\<open>match[0]\<close> of the tuple for the first pattern, the only group for the others).
\<close>

definition cv_experience_patterns :: "regex list" where
  "cv_experience_patterns =
     [cats [digits1 1, ws0, lits ''year'', Opt (Lit CHR ''s''), ws0,
            Opt (Grp 2 (cats [lits ''of'', ws0])), lits ''experience''],
      cats [lits ''experience'', ws0, Lit CHR '':'', ws0, digits1 1, ws0, lits ''year'',
            Opt (Lit CHR ''s'')],
      cats [digits1 1, Opt (Lit CHR ''+''), ws0, lits ''year'', Opt (Lit CHR ''s''), ws0,
            lits ''experience'']]"

definition extract_all_years :: "string \<Rightarrow> int list" where
  "extract_all_years text = map int_of_digits (find_years text)"

text \<open>\<open>max\<close> and \<open>min\<close> of a non-empty list.\<close>

definition py_max :: "'a::linorder list \<Rightarrow> 'a" where
  "py_max xs = foldl max (hd xs) (tl xs)"

definition py_min :: "'a::linorder list \<Rightarrow> 'a" where
  "py_min xs = foldl min (hd xs) (tl xs)"

definition explicit_years :: "string \<Rightarrow> real list" where
  "explicit_years text =
     concat (map (\<lambda>pattern. map (\<lambda>m. real_of_int (int_of_digits (match_group 1 m)))
                                 (re_findall False pattern (py_lower text)))
                 cv_experience_patterns)"

definition calculate_experience_years :: "string \<Rightarrow> real" where
  "calculate_experience_years text =
     (let years = explicit_years text
      in if years \<noteq> [] then py_max years
         else (let all_years = extract_all_years text
               in if 2 \<le> length all_years
                  then real_of_int (py_max all_years - py_min all_years)
                  else 0))"

subsection \<open>\<open>_parse_text_content\<close> and \<open>parse_cv_file\<close>\<close>

text \<open>The non-blank lines of a text, stripped.\<close>

definition nonblank_lines :: "string \<Rightarrow> string list" where
  "nonblank_lines text = filter (\<lambda>l. l \<noteq> []) (map py_strip (py_split_on newline text))"

record parsed_data =
  pd_personal_info :: personal_info
  pd_education :: "education_entry list"
  pd_work_experience :: "experience_entry list"
  pd_skills :: skills_found
  pd_certifications :: "certification list"
  pd_languages :: "language_entry list"
  pd_total_experience_years :: real

text \<open>The entries of the dictionary are computed in the order in which they are written;
  the first exception ends the computation.\<close>

definition parse_text_content :: "cv_parser \<Rightarrow> string \<Rightarrow> exn + parsed_data" where
  "parse_text_content self text =
     (let lines = nonblank_lines text;
          info = extract_personal_info text
      in case extract_education self text of
           Inl e \<Rightarrow> Inl e
         | Inr education \<Rightarrow>
             (case extract_work_experience self text lines of
                Inl e \<Rightarrow> Inl e
              | Inr work_experience \<Rightarrow>
                  Inr \<lparr> pd_personal_info = info,
                        pd_education = education,
                        pd_work_experience = work_experience,
                        pd_skills = extract_skills self text,
                        pd_certifications = extract_certifications text,
                        pd_languages = extract_languages text,
                        pd_total_experience_years = calculate_experience_years text \<rparr>))"

text \<open>The body of the \<open>try\<close> block.\<close>

definition parse_cv_try :: "cv_parser \<Rightarrow> string \<Rightarrow> exn + cv_record" where
  "parse_cv_try self file_path =
     (case extract_text_from_file self file_path of
        Inl e \<Rightarrow> Inl e
      | Inr raw_text \<Rightarrow>
          if raw_text = [] then Inl (ValueError ''Could not extract text from file'')
          else (case parse_text_content self raw_text of
                  Inl e \<Rightarrow> Inl e
                | Inr pd \<Rightarrow>
                    Inr \<lparr> cv_raw_text = raw_text,
                          cv_parsing_status = ''completed'',
                          cv_parsing_error = None,
                          cv_personal_info = pd_personal_info pd,
                          cv_education = pd_education pd,
                          cv_work_experience = pd_work_experience pd,
                          cv_skills = pd_skills pd,
                          cv_certifications = pd_certifications pd,
                          cv_languages = pd_languages pd,
                          cv_total_experience_years = pd_total_experience_years pd \<rparr>))"

text \<open>The dictionary built by the \<open>except Exception\<close> handler.\<close>

definition failed_record :: "string \<Rightarrow> cv_record" where
  "failed_record err =
     \<lparr> cv_raw_text = [],
       cv_parsing_status = ''failed'',
       cv_parsing_error = Some err,
       cv_personal_info = \<lparr> pi_email = None, pi_phone = None, pi_location = None \<rparr>,
       cv_education = [],
       cv_work_experience = [],
       cv_skills = \<lparr> technical = [], soft = [] \<rparr>,
       cv_certifications = [],
       cv_languages = [],
       cv_total_experience_years = 0 \<rparr>"

text \<open>The result is \<open>Inr\<close> of the returned dictionary; \<open>Inl\<close> would be an exception that
  reaches the caller.\<close>

definition parse_cv_file :: "cv_parser \<Rightarrow> string \<Rightarrow> exn + cv_record" where
  "parse_cv_file self file_path =
     (case parse_cv_try self file_path of
        Inr parsed \<Rightarrow> Inr parsed
      | Inl e \<Rightarrow> Inr (failed_record (exn_msg e)))"

subsection \<open>\<open>extract_candidate_name\<close>\<close>















section \<open>Sample inputs\<close>

definition ci_years :: "real \<Rightarrow> candidate_info" where
  "ci_years y = \<lparr> ci_technical_skills = [], ci_soft_skills = [], ci_education = [],
       ci_total_experience_years = y, ci_raw_text = [] \<rparr>"

definition jr_years :: "int \<Rightarrow> int option \<Rightarrow> job_requirements" where
  "jr_years mn mx = \<lparr> jr_required_skills = [], jr_preferred_skills = [],
       jr_education_requirements = [], jr_experience_requirements = [], jr_soft_skills = [],
       jr_min_experience_years = mn, jr_max_experience_years = mx,
       jr_title = [], jr_description = [] \<rparr>"

definition ci0 :: candidate_info where
  "ci0 = \<lparr> ci_technical_skills = [''Python''], ci_soft_skills = [], ci_education = [],
       ci_total_experience_years = 5, ci_raw_text = ''I write Python and SQL'' \<rparr>"

definition jr0 :: job_requirements where
  "jr0 = \<lparr> jr_required_skills = [''python''], jr_preferred_skills = [''react''],
       jr_education_requirements = [], jr_experience_requirements = [], jr_soft_skills = [],
       jr_min_experience_years = 3, jr_max_experience_years = None,
       jr_title = ''Dev'', jr_description = ''Python developer'' \<rparr>"

definition good_candidate :: candidate where
  "good_candidate = \<lparr> cand_id = 1, cand_skills = SkillsDict [(''technical'', [''Python''])],
      cand_education = None, cand_total_experience_years = Some 5,
      cand_raw_text = Some ''I write Python and SQL'' \<rparr>"

definition bad_candidate :: candidate where
  "bad_candidate = \<lparr> cand_id = 2, cand_skills = SkillsList [''Python''],
      cand_education = None, cand_total_experience_years = Some 5,
      cand_raw_text = Some ''I write Python and SQL'' \<rparr>"

definition job0 :: job_posting where
  "job0 = \<lparr> jp_id = 7, jp_title = ''Dev'', jp_description = ''Python developer'',
      jp_required_skills = Some [''python''], jp_preferred_skills = None,
      jp_education_requirements = None, jp_experience_requirements = None,
      jp_soft_skills = None, jp_min_experience_years = Some 3,
      jp_max_experience_years = None \<rparr>"

text \<open>Three stored results; their scores, the sum 188.25 and the mean 62.75 are binary
  fractions.\<close>

definition sample_analyses :: "cv_analysis list" where
  "sample_analyses =
     [cv_analysis_create 1 7 80 ''shortlisted'' None,
      cv_analysis_create 2 7 45.5 ''rejected'' None,
      cv_analysis_create 3 7 62.75 ''pending'' None]"

definition sample_analysis :: analysis where
  "sample_analysis =
     \<lparr> an_overall_score = 62.5, an_match_status = ''shortlisted'',
       an_skill_match_score = 50, an_education_match_score = 25,
       an_experience_match_score = 100, an_soft_skills_score = 50,
       an_matched_skills = [''python''], an_missing_skills = [],
       an_matched_education = [],
       an_experience_analysis = \<lparr> ed_candidate_years = 5, ed_min_required = 3,
                                   ed_max_required = None, ed_meets_minimum = True \<rparr>,
       an_ai_summary = ''Candidate shows 62% match for Dev position. '',
       an_strengths = [''Meets experience requirements''],
       an_concerns = [''Education requirements not fully met''],
       an_recommendations = [''Consider for phone screening''] \<rparr>"

text \<open>An analyzer whose scoring raises what \<open>_extract_candidate_info\<close> raises, on a
  candidate whose \<open>skills\<close> column holds a list, and returns a fixed analysis otherwise.\<close>

definition sample_analyzer :: cv_analyzer where
  "sample_analyzer =
     \<lparr> default_weights = [(''skills'', 0.5), (''experience'', 0.25), (''education'', 0.125),
                          (''soft_skills'', 0.125)],
       analyze_single_candidate =
         (\<lambda>c jp w. case extract_candidate_info c of
                      Inl e \<Rightarrow> Inl e
                    | Inr ci \<Rightarrow> Inr sample_analysis) \<rparr>"

text \<open>A parser without entity recogniser. The PDF file \<open>broken.pdf\<close> cannot be read;
  every other PDF file has two pages, and the walker of the work experience section fails
  on their text.\<close>

definition sample_parser :: cv_parser where
  "sample_parser =
     \<lparr> nlp = None,
       cv_technical_skills = programming_languages,
       cv_soft_skills = [''teamwork''],
       pdf_pages = (\<lambda>p. if p = ''broken.pdf''
                         then Inl (Exn ''PdfReadError'' ''EOF marker not found'')
                         else Inr [''Jane Doe'', ''crash test'']),
       docx_content = (\<lambda>p. Inr ([], [])),
       extract_education = (\<lambda>t. Inr []),
       extract_work_experience =
         (\<lambda>t ls. if py_in ''crash'' t then Inl (Exn ''IndexError'' ''list index out of range'')
                  else Inr []) \<rparr>"

definition sample_pages_text :: string where
  "sample_pages_text = ''Jane Doe'' @ newline # ''crash test''"

definition sample_service :: nlp_service where
  "sample_service = \<lparr> all_technical_skills = [''java'', ''python''],
       soft_skills_db = [''teamwork''], field_patterns = [''computer science''] \<rparr>"

definition sample_job_text :: string where
  "sample_job_text = ''Java required'' @ newline # ''Python a plus''"

definition sample_dates_text :: string where
  "sample_dates_text = ''Software Engineer at Acme, 2015 - 2020''"



section \<open>Properties of the scoring engine\<close>

subsection \<open>Skill score\<close>

lemma length_list_set: "length (list_set xs) = card (set xs)"
  by (simp add: list_set_def length_remdups_card_conv)

text \<open>
  Claim C3. The skill score of a candidate against a job is
  \<open>min(100, match_rate * 60 + min(30, keyword_match_count * 2) + 15)\<close>, where
  \<open>match_rate\<close> is the number of distinct matches (keyword matches together with the
  matches of the required and preferred skills) divided by the number of job terms (mined
  keywords plus required plus preferred skills); with no job term at all the score is 30.
\<close>

theorem skill_score_formula:
  fixes ci :: candidate_info and jr :: job_requirements
  defines "cv_text \<equiv> py_lower (ci_raw_text ci)"
      and "job_keywords \<equiv> extract_job_keywords (py_lower (jr_description jr))"
  defines "keyword_matches \<equiv> filter (\<lambda>k. py_in k cv_text) job_keywords"
      and "skill_matches \<equiv>
             filter (\<lambda>s. s \<in> set (map py_lower (ci_technical_skills ci)) \<or> py_in s cv_text)
                    (map py_lower (jr_required_skills jr) @ map py_lower (jr_preferred_skills jr))"
      and "total_job_terms \<equiv>
             length job_keywords + length (jr_required_skills jr) + length (jr_preferred_skills jr)"
  shows "sk_score (analyze_skills_match ci jr) =
           (if total_job_terms = 0 then 30
            else min 100 (real (card (set keyword_matches \<union> set skill_matches))
                            / real total_job_terms * 60
                          + min 30 (real (length keyword_matches) * 2) + 15))"
proof (cases "total_job_terms = 0")
  case True
  then show ?thesis
    unfolding total_job_terms_def job_keywords_def
    by (simp add: analyze_skills_match_def Let_def)
next
  case False
  then have m: "max total_job_terms 1 = total_job_terms" by simp
  have s: "set (filter (\<lambda>k. py_in k cv_text) job_keywords @ skill_matches)
             = set keyword_matches \<union> set skill_matches"
    by (simp add: keyword_matches_def)
  show ?thesis
    using False m s
    unfolding total_job_terms_def job_keywords_def keyword_matches_def skill_matches_def cv_text_def
    by (simp add: analyze_skills_match_def Let_def length_list_set del: set_append set_filter)
qed

theorem skill_score_formula_witness:
  "sk_score (analyze_skills_match ci0 jr0) = 32"
  by (rule trans [OF skill_score_formula [where ci = ci0 and jr = jr0]]) code_simp

subsection \<open>Experience score\<close>

text \<open>
  Claim C4, as the code has it. With \<open>min_required = 0\<close> the experience score is 40.
  With \<open>candidate_years \<ge> min_required\<close> it is 100 when the maximum is unset, is zero, or
  is not exceeded, and 85 when a non-zero maximum is exceeded. With
  \<open>candidate_years < min_required\<close>, for a positive minimum, it is
  \<open>max(40, candidate_years / min_required * 80)\<close>. For a minimum of 5 and no maximum,
  5.0 years score 100 and 4.99 years score 79.84.
\<close>

theorem experience_score_policy:
  fixes ci :: candidate_info and jr :: job_requirements
  defines "cy \<equiv> ci_total_experience_years ci"
      and "mn \<equiv> jr_min_experience_years jr"
      and "mx \<equiv> jr_max_experience_years jr"
      and "score \<equiv> exp_score (analyze_experience_match ci jr)"
  shows "(mn = 0 \<longrightarrow> score = 40)
       \<and> (mn \<noteq> 0 \<and> real_of_int mn \<le> cy
            \<and> (mx = None \<or> mx = Some 0 \<or> cy \<le> real_of_int (the mx))
            \<longrightarrow> score = 100)
       \<and> (mn \<noteq> 0 \<and> real_of_int mn \<le> cy
            \<and> mx \<noteq> None \<and> mx \<noteq> Some 0 \<and> real_of_int (the mx) < cy
            \<longrightarrow> score = 85)
       \<and> (0 < mn \<and> cy < real_of_int mn \<longrightarrow> score = max 40 (cy / real_of_int mn * 80))
       \<and> exp_score (analyze_experience_match (ci_years 5) (jr_years 5 None)) = 100
       \<and> exp_score (analyze_experience_match (ci_years 4.99) (jr_years 5 None)) = 79.84"
  unfolding cy_def mn_def mx_def score_def
  by (auto simp: analyze_experience_match_def Let_def ci_years_def jr_years_def
           split: option.splits)

theorem experience_score_policy_witness:
  "exp_score (analyze_experience_match (ci_years 3) (jr_years 0 None)) = 40
   \<and> exp_score (analyze_experience_match (ci_years 7) (jr_years 5 (Some 10))) = 100
   \<and> exp_score (analyze_experience_match (ci_years 12) (jr_years 5 (Some 10))) = 85
   \<and> exp_score (analyze_experience_match (ci_years 4) (jr_years 5 None)) = 64"
  using experience_score_policy [where jr = "jr_years 0 None" and ci = "ci_years 3"]
        experience_score_policy [where jr = "jr_years 5 (Some 10)" and ci = "ci_years 7"]
        experience_score_policy [where jr = "jr_years 5 (Some 10)" and ci = "ci_years 12"]
        experience_score_policy [where jr = "jr_years 5 None" and ci = "ci_years 4"]
  by (simp add: ci_years_def jr_years_def)

text \<open>Six years against a minimum of 5 and a maximum of 0: the maximum is exceeded, and
  the score is 100, not 85.\<close>

theorem experience_score_zero_max_counterexample:
  "real_of_int (jr_min_experience_years (jr_years 5 (Some 0)))
     \<le> ci_total_experience_years (ci_years 6)
   \<and> real_of_int (the (jr_max_experience_years (jr_years 5 (Some 0))))
       < ci_total_experience_years (ci_years 6)
   \<and> exp_score (analyze_experience_match (ci_years 6) (jr_years 5 (Some 0))) = 100
   \<and> exp_score (analyze_experience_match (ci_years 6) (jr_years 5 (Some 0))) \<noteq> 85"
  by (simp add: analyze_experience_match_def ci_years_def jr_years_def)

subsection \<open>Statistics of a batch\<close>

text \<open>
  Claim C8, as the code has it. For every list of results the statistics give the length
  of the list as \<open>total\<close>, the number of shortlisted results and the number of rejected
  results. For a non-empty list \<open>average_score\<close> is the mean of the overall scores (their
  float sum divided by their number) rounded to two decimals by \<open>round\<close>; for the empty
  list the dictionary has no \<open>average_score\<close>.
\<close>

theorem statistics_summary:
  "total (get_analysis_statistics ops analyses) = length analyses
   \<and> shortlisted (get_analysis_statistics ops analyses)
       = length (filter (\<lambda>a. match_status a = ''shortlisted'') analyses)
   \<and> rejected (get_analysis_statistics ops analyses)
       = length (filter (\<lambda>a. match_status a = ''rejected'') analyses)
   \<and> (analyses \<noteq> [] \<longrightarrow>
        average_score (get_analysis_statistics ops analyses)
          = Some (f_round2 ops (f_div ops (f_sum ops (map overall_score analyses))
                                          (real (length analyses)))))
   \<and> (analyses = [] \<longrightarrow> average_score (get_analysis_statistics ops analyses) = None)"
  by (simp add: get_analysis_statistics_def Let_def)

theorem statistics_summary_witness:
  "get_analysis_statistics exact_ops sample_analyses
   = \<lparr> total = 3, shortlisted = 1, rejected = 1, average_score = Some 62.75 \<rparr>"
  using statistics_summary [of exact_ops sample_analyses]
  by (simp add: sample_analyses_def cv_analysis_create_def exact_ops_def exact_round2_def
                round_half_even_def Let_def)

theorem statistics_empty_counterexample:
  "average_score (get_analysis_statistics exact_ops []) = None"
  by (simp add: get_analysis_statistics_def)

subsection \<open>Batches\<close>

lemma analyze_loop_append:
  "analyze_loop self elapsed jp w cs results = results @ map (analyze_one self elapsed jp w) cs"
  by (induction cs arbitrary: results) simp_all

lemma analyze_candidates_map:
  "analyze_candidates_for_job self elapsed cands jp cw
     = map (analyze_one self elapsed jp (effective_weights self cw)) cands"
  by (simp add: analyze_candidates_for_job_def analyze_loop_append)

text \<open>
  Claim C9. A batch of \<open>N\<close> candidates gives exactly \<open>N\<close> results, the \<open>i\<close>-th for the
  \<open>i\<close>-th candidate. Where scoring a candidate raises, the result for that candidate has
  overall score 0, status \<open>rejected\<close> and a summary that holds the text of the error, all
  other fields at their defaults. Where scoring a candidate returns, the result holds the
  returned analysis and the time measured, whatever happened to the candidates before.
\<close>

theorem batch_one_result_per_candidate:
  "length (analyze_candidates_for_job self elapsed cands jp cw) = length cands
   \<and> (\<forall>i < length cands. \<forall>e.
         analyze_single_candidate self (cands ! i) jp (effective_weights self cw) = Inl e \<longrightarrow>
           (let r = analyze_candidates_for_job self elapsed cands jp cw ! i
            in candidate_id r = cand_id (cands ! i)
               \<and> overall_score r = 0
               \<and> match_status r = ''rejected''
               \<and> ai_summary r = Some (''Analysis failed: '' @ exn_msg e)
               \<and> r = cv_analysis_create (cand_id (cands ! i)) (jp_id jp) 0 ''rejected''
                        (Some (''Analysis failed: '' @ exn_msg e))))
   \<and> (\<forall>i < length cands. \<forall>a.
         analyze_single_candidate self (cands ! i) jp (effective_weights self cw) = Inr a \<longrightarrow>
           analyze_candidates_for_job self elapsed cands jp cw ! i
             = analysis_data (cands ! i) jp a (elapsed (cands ! i)))"
  by (simp add: analyze_candidates_map analyze_one_def cv_analysis_create_def)

theorem batch_one_result_per_candidate_witness:
  "length (analyze_candidates_for_job sample_analyzer (\<lambda>c. 12)
             [good_candidate, bad_candidate, good_candidate] job0 None) = 3
   \<and> isl (analyze_single_candidate sample_analyzer bad_candidate job0
             (effective_weights sample_analyzer None))
   \<and> analyze_single_candidate sample_analyzer good_candidate job0
             (effective_weights sample_analyzer None) = Inr sample_analysis
   \<and> analyze_candidates_for_job sample_analyzer (\<lambda>c. 12)
        [good_candidate, bad_candidate, good_candidate] job0 None ! 0
      = analysis_data good_candidate job0 sample_analysis 12
   \<and> analyze_candidates_for_job sample_analyzer (\<lambda>c. 12)
        [good_candidate, bad_candidate, good_candidate] job0 None ! 1
      = cv_analysis_create 2 7 0 ''rejected''
           (Some (''Analysis failed: '' @ CHR 0x27 # ''list'' @ CHR 0x27 #
                  '' object has no attribute '' @ CHR 0x27 # ''get'' @ [CHR 0x27]))
   \<and> analyze_candidates_for_job sample_analyzer (\<lambda>c. 12)
        [good_candidate, bad_candidate, good_candidate] job0 None ! 2
      = analysis_data good_candidate job0 sample_analysis 12"
proof -
  let ?w = "effective_weights sample_analyzer None"
  let ?cs = "[good_candidate, bad_candidate, good_candidate]"
  let ?rs = "analyze_candidates_for_job sample_analyzer (\<lambda>c. 12) ?cs job0 None"
  let ?e = "AttributeError (CHR 0x27 # ''list'' @ CHR 0x27 # '' object has no attribute '' @
                                                  CHR 0x27 # ''get'' @ [CHR 0x27])"
  have f: "analyze_single_candidate sample_analyzer bad_candidate job0 ?w = Inl ?e"
    by (simp add: sample_analyzer_def extract_candidate_info_def bad_candidate_def Let_def)
  have g: "analyze_single_candidate sample_analyzer good_candidate job0 ?w = Inr sample_analysis"
    by (simp add: sample_analyzer_def extract_candidate_info_def good_candidate_def Let_def)
  note t = batch_one_result_per_candidate [where self = sample_analyzer
        and elapsed = "\<lambda>c. 12" and cands = ?cs and jp = job0 and cw = None]
  from t have n: "length ?rs = 3" by simp
  have "\<forall>e. analyze_single_candidate sample_analyzer (?cs ! 1) job0 ?w = Inl e \<longrightarrow>
           (let r = ?rs ! 1
            in candidate_id r = cand_id (?cs ! 1)
               \<and> overall_score r = 0
               \<and> match_status r = ''rejected''
               \<and> ai_summary r = Some (''Analysis failed: '' @ exn_msg e)
               \<and> r = cv_analysis_create (cand_id (?cs ! 1)) (jp_id job0) 0 ''rejected''
                        (Some (''Analysis failed: '' @ exn_msg e)))"
    using t [THEN conjunct2, THEN conjunct1, THEN spec, of 1] by simp
  then have r1: "?rs ! 1 = cv_analysis_create (cand_id bad_candidate) (jp_id job0) 0 ''rejected''
                        (Some (''Analysis failed: '' @ exn_msg ?e))"
    using f by (simp add: Let_def)
  have s0: "\<forall>a. analyze_single_candidate sample_analyzer (?cs ! 0) job0 ?w = Inr a \<longrightarrow>
           ?rs ! 0 = analysis_data (?cs ! 0) job0 a 12"
    using t [THEN conjunct2, THEN conjunct2, THEN spec, of 0] by simp
  have s2: "\<forall>a. analyze_single_candidate sample_analyzer (?cs ! 2) job0 ?w = Inr a \<longrightarrow>
           ?rs ! 2 = analysis_data (?cs ! 2) job0 a 12"
    using t [THEN conjunct2, THEN conjunct2, THEN spec, of 2] by simp
  from s0 g have r0: "?rs ! 0 = analysis_data good_candidate job0 sample_analysis 12" by simp
  from s2 g have r2: "?rs ! 2 = analysis_data good_candidate job0 sample_analysis 12" by simp
  have r1': "?rs ! 1 = cv_analysis_create 2 7 0 ''rejected''
           (Some (''Analysis failed: '' @ CHR 0x27 # ''list'' @ CHR 0x27 #
                  '' object has no attribute '' @ CHR 0x27 # ''get'' @ [CHR 0x27]))"
    unfolding r1 by (simp add: bad_candidate_def job0_def AttributeError_def)
  have i: "isl (analyze_single_candidate sample_analyzer bad_candidate job0 ?w)"
    unfolding f by simp
  show ?thesis
    using n i g r0 r1' r2 by (intro conjI)
qed

section \<open>Properties of the resume parser\<close>

subsection \<open>Unsupported formats and failures\<close>

text \<open>
  Claim C1, as the code has it. For a file whose extension is none of \<open>.pdf\<close>, \<open>.doc\<close>,
  \<open>.docx\<close>, \<open>_extract_text_from_file\<close> raises \<open>ValueError\<close> with the text
  \<open>Unsupported file format: <extension>\<close>; \<open>parse_cv_file\<close> catches it and returns the
  failed record that holds this text as \<open>parsing_error\<close>. Nothing is raised to the caller.
\<close>

theorem unsupported_format_is_recorded:
  assumes "py_lower (path_suffix file_path) \<notin> {''.pdf'', ''.doc'', ''.docx''}"
  shows "extract_text_from_file self file_path
           = Inl (ValueError (''Unsupported file format: '' @ py_lower (path_suffix file_path)))
         \<and> parse_cv_file self file_path
           = Inr (failed_record (''Unsupported file format: '' @ py_lower (path_suffix file_path)))"
  using assms
  by (simp add: extract_text_from_file_def parse_cv_file_def parse_cv_try_def Let_def
                ValueError_def)

theorem unsupported_format_is_recorded_witness:
  "py_lower (path_suffix ''resume.txt'') \<notin> {''.pdf'', ''.doc'', ''.docx''}
   \<and> parse_cv_file sample_parser ''resume.txt''
       = Inr (failed_record ''Unsupported file format: .txt'')"
proof -
  have s: "py_lower (path_suffix ''resume.txt'') = ''.txt''" by code_simp
  have h: "py_lower (path_suffix ''resume.txt'') \<notin> {''.pdf'', ''.doc'', ''.docx''}"
    unfolding s by simp
  show ?thesis
    using unsupported_format_is_recorded [OF h, of sample_parser] h by (simp add: s)
qed

text \<open>The call with \<open>resume.txt\<close> raises nothing: it returns the failed record.\<close>

theorem unsupported_format_counterexample:
  "\<not> isl (parse_cv_file sample_parser ''resume.txt'')
   \<and> parse_cv_file sample_parser ''resume.txt''
       = Inr (failed_record ''Unsupported file format: .txt'')"
proof -
  have s: "py_lower (path_suffix ''resume.txt'') = ''.txt''" by code_simp
  show ?thesis
    by (simp add: parse_cv_file_def parse_cv_try_def extract_text_from_file_def Let_def s
                  ValueError_def)
qed

lemma parse_cv_file_returns: "\<exists>r. parse_cv_file self file_path = Inr r"
  by (simp add: parse_cv_file_def split: sum.splits)

text \<open>
  Claim C2. Whenever the extraction of the text raises, gives an empty text (which raises
  \<open>ValueError\<close> in \<open>parse_cv_file\<close> itself), or the parsing of the fields raises, the
  entry point returns a record with status \<open>failed\<close>, the text of the error as
  \<open>parsing_error\<close>, an empty \<open>raw_text\<close> and every field at its empty value.
\<close>

theorem parse_failure_gives_failed_record:
  assumes "extract_text_from_file self file_path = Inl e
           \<or> (extract_text_from_file self file_path = Inr [] \<and>
                e = ValueError ''Could not extract text from file'')
           \<or> (\<exists>raw_text. extract_text_from_file self file_path = Inr raw_text \<and> raw_text \<noteq> []
                  \<and> parse_text_content self raw_text = Inl e)"
  shows "parse_cv_file self file_path =
           Inr \<lparr> cv_raw_text = [],
                 cv_parsing_status = ''failed'',
                 cv_parsing_error = Some (exn_msg e),
                 cv_personal_info = \<lparr> pi_email = None, pi_phone = None, pi_location = None \<rparr>,
                 cv_education = [],
                 cv_work_experience = [],
                 cv_skills = \<lparr> technical = [], soft = [] \<rparr>,
                 cv_certifications = [],
                 cv_languages = [],
                 cv_total_experience_years = 0 \<rparr>"
  using assms
  by (auto simp: parse_cv_file_def parse_cv_try_def failed_record_def)

theorem parse_failure_gives_failed_record_witness:
  "extract_text_from_file sample_parser ''broken.pdf''
     = Inl (Exn ''PdfReadError'' ''EOF marker not found'')
   \<and> cv_parsing_status (projr (parse_cv_file sample_parser ''broken.pdf'')) = ''failed''
   \<and> cv_parsing_error (projr (parse_cv_file sample_parser ''broken.pdf''))
       = Some ''EOF marker not found''
   \<and> extract_text_from_file sample_parser ''cv.pdf'' = Inr sample_pages_text
   \<and> parse_text_content sample_parser sample_pages_text
       = Inl (Exn ''IndexError'' ''list index out of range'')
   \<and> cv_parsing_error (projr (parse_cv_file sample_parser ''cv.pdf''))
       = Some ''list index out of range''"
proof -
  have s1: "py_lower (path_suffix ''broken.pdf'') = ''.pdf''" by code_simp
  have s2: "py_lower (path_suffix ''cv.pdf'') = ''.pdf''" by code_simp
  have e1: "extract_text_from_file sample_parser ''broken.pdf''
              = Inl (Exn ''PdfReadError'' ''EOF marker not found'')"
    by (simp add: extract_text_from_file_def Let_def s1 extract_from_pdf_def sample_parser_def)
  have t: "py_strip (concat (map (\<lambda>page. page @ [newline]) [''Jane Doe'', ''crash test'']))
             = sample_pages_text"
    by code_simp
  have e2: "extract_text_from_file sample_parser ''cv.pdf'' = Inr sample_pages_text"
    by (simp add: extract_text_from_file_def Let_def s2 extract_from_pdf_def sample_parser_def t
             del: concat.simps map_append list.map)
  have c: "py_in ''crash'' sample_pages_text" by code_simp
  have n: "sample_pages_text \<noteq> []" by (simp add: sample_pages_text_def)
  have e3: "parse_text_content sample_parser sample_pages_text
              = Inl (Exn ''IndexError'' ''list index out of range'')"
    by (simp add: parse_text_content_def Let_def sample_parser_def c)
  show ?thesis
    using parse_failure_gives_failed_record [of sample_parser "''broken.pdf''"
              "Exn ''PdfReadError'' ''EOF marker not found''"]
          parse_failure_gives_failed_record [of sample_parser "''cv.pdf''"
              "Exn ''IndexError'' ''list index out of range''"]
          e1 e2 e3 n
    by simp
qed

subsection \<open>Total experience years\<close>

text \<open>
  Claim C5 fails on the code. The text below has no phrase of the forms
  \<open>N years experience\<close>, and holds the two years 2015 and 2020. \<open>_extract_all_years\<close>,
  documented as giving all 4-digit years of the text, gives the century of each year
  (the group of its pattern), here 20 and 20, and the total is 0 where the claim has 5.
\<close>

theorem experience_years_fallback_drops_the_years:
  "explicit_years sample_dates_text = []
   \<and> find_years sample_dates_text = [''20'', ''20'']
   \<and> extract_all_years sample_dates_text = [20, 20]
   \<and> calculate_experience_years sample_dates_text = 0"
proof -
  have a: "explicit_years sample_dates_text = []" by code_simp
  have b: "find_years sample_dates_text = [''20'', ''20'']" by code_simp
  have c: "int_of_digits ''20'' = 20" by code_simp
  have d: "extract_all_years sample_dates_text = [20, 20]"
    by (simp add: extract_all_years_def b c)
  have "calculate_experience_years sample_dates_text = 0"
    by (simp add: calculate_experience_years_def Let_def a d py_max_def py_min_def)
  with a b d show ?thesis by simp
qed

subsection \<open>The name of the candidate\<close>









section \<open>Properties of the job requirement parser\<close>

text \<open>
  Claim C6. For every job description the required skills and the preferred skills of
  the parsed requirements have no skill in common.
\<close>

theorem required_preferred_disjoint:
  "set (required_skills (parse_job_requirements svc job_description))
     \<inter> set (preferred_skills (parse_job_requirements svc job_description)) = {}"
  by (auto simp: parse_job_requirements_def Let_def list_set_def)

theorem required_preferred_disjoint_witness:
  "extract_technical_skills sample_service (py_lower sample_job_text) True = [''java'']
   \<and> extract_technical_skills sample_service (py_lower sample_job_text) False = [''python'']
   \<and> set (required_skills (parse_job_requirements sample_service sample_job_text))
       \<inter> set (preferred_skills (parse_job_requirements sample_service sample_job_text)) = {}"
proof -
  have r: "extract_technical_skills sample_service (py_lower sample_job_text) True = [''java'']"
    by code_simp
  have p: "extract_technical_skills sample_service (py_lower sample_job_text) False = [''python'']"
    by code_simp
  show ?thesis
    using required_preferred_disjoint [of sample_service sample_job_text] r p by simp
qed

text \<open>
  Claim C7 fails on the code for a skill that ends in a character that is no word
  character. The two examples of the claim hold: \<open>java\<close> is not found in
  \<open>javascript\<close> and is found in \<open>Java\<close>. The skill \<open>c++\<close> of the taxonomy is not
  found where it stands as a complete word, and it is found inside the longer word
  \<open>C++11\<close>: the \<open>\b\<close> after the last \<open>+\<close> asks for a word character to follow.
\<close>

theorem skill_mention_misses_cpp:
  "is_skill_mentioned ''I know javascript well'' ''java'' = False
   \<and> is_skill_mentioned ''I use Java daily'' ''java'' = True
   \<and> ''c++'' \<in> set programming_languages
   \<and> is_skill_mentioned ''Experience with C++ is required'' ''c++'' = False
   \<and> is_skill_mentioned ''Experience with C++11 is required'' ''c++'' = True"
  by code_simp

end
